theory Spec2Isabelle
  imports Complex_Main
begin

section \<open>Task management API: authorization pipeline and task handlers\<close>

text \<open>
  A shallow embedding of the Flask application under \<^verbatim>\<open>backend/app\<close>: the input
  sanitizer of \<^verbatim>\<open>utils/validators.py\<close>, the response envelope of
  \<^verbatim>\<open>utils/responses.py\<close>, the task and user tables behind
  \<^verbatim>\<open>models/*.py\<close>, the token functions and the authentication decorator of
  \<^verbatim>\<open>middleware/auth_middleware.py\<close>, and the handlers of
  \<^verbatim>\<open>routes/task_routes.py\<close> and \<^verbatim>\<open>routes/auth_routes.py\<close>.

  Conventions. A Python \<^verbatim>\<open>str\<close> is a \<^typ>\<open>string\<close>; a \<^typ>\<open>char\<close> stands for a
  code point below 256, so \<^const>\<open>length\<close> counts characters as Python's
  \<^verbatim>\<open>len\<close> does on such text. Python integers are \<^typ>\<open>int\<close>. The database is an
  explicit state that every handler takes and returns. The paths to the handlers'
  \<^verbatim>\<open>except Exception\<close> clauses are the Python-level exceptions written out
  below, a statement the store rejects because a \<^verbatim>\<open>LIMIT\<close> or \<^verbatim>\<open>OFFSET\<close> value
  is outside the range the engine accepts, and an exception of the password hasher;
  other failures of the database engine (connection loss, a full disk) are outside
  the model. Logging is modelled only in \<^verbatim>\<open>decode_token\<close>, where a property
  depends on it.
\<close>

subsection \<open>Python string operations\<close>

text \<open>\<^verbatim>\<open>str.isspace\<close> on the code points below 256: TAB..CR, FS..US, space, NEL, NBSP.\<close>

definition is_space :: "char \<Rightarrow> bool" where
  "is_space c = ((of_char c :: nat) \<in> {9, 10, 11, 12, 13, 28, 29, 30, 31, 32, 133, 160})"

text \<open>\<^verbatim>\<open>str.strip()\<close>: drop leading and trailing whitespace.\<close>

definition strip :: "string \<Rightarrow> string" where
  "strip s = rev (dropWhile is_space (rev (dropWhile is_space s)))"

text \<open>\<^verbatim>\<open>str.replace(old, new)\<close> for a one-character \<^verbatim>\<open>old\<close>.\<close>

definition replace_char :: "char \<Rightarrow> string \<Rightarrow> string \<Rightarrow> string" where
  "replace_char c r s = concat (map (\<lambda>x. if x = c then r else [x]) s)"

text \<open>
  \<^verbatim>\<open>html.escape(s)\<close> with its default \<^verbatim>\<open>quote=True\<close>: five replacements in the
  standard library's order, the ampersand first.
\<close>

definition html_escape :: "string \<Rightarrow> string" where
  "html_escape s =
     replace_char (CHR 0x27) ''&#x27;''
       (replace_char (CHR 0x22) ''&quot;''
         (replace_char CHR ''>'' ''&gt;''
           (replace_char CHR ''<'' ''&lt;''
             (replace_char CHR ''&'' ''&amp;'' s))))"

text \<open>\<^verbatim>\<open>str.lower()\<close> on the code points below 256: A..Z and the Latin-1 capitals.\<close>

definition lower_char :: "char \<Rightarrow> char" where
  "lower_char c =
     (let n = (of_char c :: nat)
      in if (65 \<le> n \<and> n \<le> 90) \<or> (192 \<le> n \<and> n \<le> 222 \<and> n \<noteq> 215)
         then char_of (n + 32) else c)"

definition lower :: "string \<Rightarrow> string" where
  "lower s = map lower_char s"

text \<open>\<^verbatim>\<open>sep.join(xs)\<close>.\<close>

fun join :: "string \<Rightarrow> string list \<Rightarrow> string" where
  "join sep [] = []"
| "join sep [x] = x"
| "join sep (x # y # ys) = x @ sep @ join sep (y # ys)"

text \<open>
  \<^verbatim>\<open>str.split()\<close> without arguments: the maximal runs of non-whitespace characters.
  The second argument is the run being read, reversed.
\<close>

fun split_run :: "string \<Rightarrow> string \<Rightarrow> string list" where
  "split_run [] cur = (if cur = [] then [] else [rev cur])"
| "split_run (c # cs) cur =
     (if is_space c
      then (if cur = [] then split_run cs [] else rev cur # split_run cs [])
      else split_run cs (c # cur))"

definition split :: "string \<Rightarrow> string list" where
  "split s = split_run s []"

text \<open>\<^verbatim>\<open>str(n)\<close> for an integer: decimal digits, a minus sign for negatives.\<close>

fun digits_of :: "nat \<Rightarrow> string" where
  "digits_of n =
     (if n < 10 then [char_of (48 + n)]
      else digits_of (n div 10) @ [char_of (48 + n mod 10)])"

definition str_of_int :: "int \<Rightarrow> string" where
  "str_of_int i = (if i < 0 then CHR ''-'' # digits_of (nat (- i)) else digits_of (nat i))"

subsection \<open>JSON values and request bodies\<close>

text \<open>
  The values a field of a JSON request body can hold. Floats, arrays and nested
  objects as field values are not part of this type.
\<close>

datatype json = JNull | JBool bool | JInt int | JStr string

text \<open>\<^verbatim>\<open>str(value)\<close> for a value that is not a \<^verbatim>\<open>str\<close>.\<close>

fun py_str :: "json \<Rightarrow> string" where
  "py_str JNull = ''None''"
| "py_str (JBool b) = (if b then ''True'' else ''False'')"
| "py_str (JInt i) = str_of_int i"
| "py_str (JStr s) = s"

text \<open>
  What \<^verbatim>\<open>request.get_json()\<close> gives a handler: it raises (no JSON content type,
  malformed text), or returns a scalar, or returns a dict. A dict is an association
  list with distinct keys.
\<close>

datatype body = NotJson | Scalar json | Object "(string \<times> json) list"

text \<open>Python truthiness of the parsed body, as tested by \<^verbatim>\<open>if not data\<close>.\<close>

fun truthy :: "body \<Rightarrow> bool" where
  "truthy NotJson = False"
| "truthy (Scalar JNull) = False"
| "truthy (Scalar (JBool b)) = b"
| "truthy (Scalar (JInt i)) = (i \<noteq> 0)"
| "truthy (Scalar (JStr s)) = (s \<noteq> [])"
| "truthy (Object d) = (d \<noteq> [])"

text \<open>\<^verbatim>\<open>d.get(key, default)\<close>.\<close>

definition dict_get :: "(string \<times> json) list \<Rightarrow> string \<Rightarrow> json \<Rightarrow> json" where
  "dict_get d k dflt = (case map_of d k of Some v \<Rightarrow> v | None \<Rightarrow> dflt)"

subsection \<open>\<^verbatim>\<open>utils/validators.py\<close>: \<^verbatim>\<open>sanitize_input\<close>\<close>

definition sanitize_input :: "json \<Rightarrow> string" where
  "sanitize_input v =
     (if v = JNull then []
      else let s = (case v of JStr t \<Rightarrow> t | _ \<Rightarrow> py_str v)
           in html_escape (strip s))"

subsection \<open>\<^verbatim>\<open>utils/responses.py\<close>: the response envelope\<close>

record task =
  t_id :: int
  t_title :: string
  t_description :: string
  t_status :: string
  t_user_id :: int
  t_created_at :: int

record pagination =
  pg_total :: int
  pg_page :: int
  pg_limit :: int
  pg_pages :: int

text \<open>The \<^verbatim>\<open>data\<close> member of a success envelope, one constructor per shape a handler builds.\<close>

datatype payload =
    NoData
  | TaskCreated int
  | TaskDetail task
  | TaskUpdated int string string string
  | TaskPage "task list" pagination
  | UserCreated int string

text \<open>
  The JSON envelope: \<^verbatim>\<open>{success: true, message, data}\<close> or
  \<^verbatim>\<open>{success: false, error}\<close>. A response is the envelope with its status code.
\<close>

datatype envelope = Success string payload | Failure string

type_synonym response = "envelope \<times> nat"

definition success_response :: "string \<Rightarrow> payload \<Rightarrow> nat \<Rightarrow> response" where
  "success_response msg d status_code = (Success msg d, status_code)"

definition error_response :: "string \<Rightarrow> nat \<Rightarrow> response" where
  "error_response msg status_code = (Failure msg, status_code)"

abbreviation status_of :: "response \<Rightarrow> nat" where
  "status_of r \<equiv> snd r"

subsection \<open>\<^verbatim>\<open>models/task_model.py\<close>: the task table\<close>

record user_row =
  u_id :: int
  u_email :: string
  u_password_hash :: string
  u_name :: string
  u_role :: string
  u_created_at :: int

text \<open>
  The database: the two tables in insertion order, the identity the next INSERT
  receives in each, the engine's clock, and the largest row count the engine accepts
  as a \<^verbatim>\<open>LIMIT\<close> or \<^verbatim>\<open>OFFSET\<close> value. The engine is not part of the repository
  (\<^verbatim>\<open>extensions.py\<close> connects to MySQL or PostgreSQL), so that bound is a
  component of the state: \<open>2^64 - 1\<close> for MySQL, \<open>2^63 - 1\<close> for PostgreSQL.
\<close>

record db =
  tasks :: "task list"
  users :: "user_row list"
  next_task_id :: int
  next_user_id :: int
  db_clock :: int
  db_max_offset :: int

text \<open>
  Modelled from the spec: the table definitions are not among the sources. Per the
  data model, \<^verbatim>\<open>id\<close> is a surrogate key given by the store (returned to the caller
  as \<^verbatim>\<open>cursor.lastrowid\<close>) and \<^verbatim>\<open>created_at\<close> is set at creation.
\<close>

definition TaskModel_create :: "string \<Rightarrow> string \<Rightarrow> string \<Rightarrow> int \<Rightarrow> db \<Rightarrow> int \<times> db" where
  "TaskModel_create title description status user_id d =
     (next_task_id d,
      d\<lparr>tasks := tasks d @
           [\<lparr>t_id = next_task_id d, t_title = title, t_description = description,
             t_status = status, t_user_id = user_id, t_created_at = db_clock d\<rparr>],
        next_task_id := next_task_id d + 1\<rparr>)"

text \<open>\<^verbatim>\<open>SELECT ... WHERE id = %s\<close> with \<^verbatim>\<open>fetchone\<close>: the first matching row, or None.\<close>

definition TaskModel_find_by_id :: "int \<Rightarrow> db \<Rightarrow> task option" where
  "TaskModel_find_by_id task_id d = find (\<lambda>t. t_id t = task_id) (tasks d)"

text \<open>
  \<^verbatim>\<open>ORDER BY created_at DESC\<close>. Rows with equal timestamps are kept in table
  order; SQL leaves their order to the engine.
\<close>

definition order_by_created_desc :: "task list \<Rightarrow> task list" where
  "order_by_created_desc ts = sort_key (\<lambda>t. - t_created_at t) ts"








text \<open>
  \<^verbatim>\<open>update\<close> sets the columns whose argument is not None in every row with the
  given id; with no column to set it returns False and runs no statement.
\<close>

definition set_columns :: "string option \<Rightarrow> string option \<Rightarrow> string option \<Rightarrow> task \<Rightarrow> task" where
  "set_columns title description status t =
     t\<lparr>t_title := (case title of None \<Rightarrow> t_title t | Some x \<Rightarrow> x),
       t_description := (case description of None \<Rightarrow> t_description t | Some x \<Rightarrow> x),
       t_status := (case status of None \<Rightarrow> t_status t | Some x \<Rightarrow> x)\<rparr>"

definition TaskModel_update ::
  "int \<Rightarrow> string option \<Rightarrow> string option \<Rightarrow> string option \<Rightarrow> db \<Rightarrow> bool \<times> db" where
  "TaskModel_update task_id title description status d =
     (if title = None \<and> description = None \<and> status = None then (False, d)
      else (True,
            d\<lparr>tasks := map (\<lambda>t. if t_id t = task_id
                                 then set_columns title description status t else t)
                            (tasks d)\<rparr>))"

definition TaskModel_delete :: "int \<Rightarrow> db \<Rightarrow> bool \<times> db" where
  "TaskModel_delete task_id d = (True, d\<lparr>tasks := filter (\<lambda>t. t_id t \<noteq> task_id) (tasks d)\<rparr>)"

subsection \<open>\<^verbatim>\<open>routes/task_routes.py\<close>: the task handlers\<close>

text \<open>The identity the authentication decorator passes to a handler.\<close>

record current_user =
  cu_user_id :: int
  cu_role :: string

definition valid_statuses :: "string list" where
  "valid_statuses = [''pending'', ''in_progress'', ''completed'', ''cancelled'']"

definition invalid_status_message :: string where
  "invalid_status_message = ''Invalid status. Must be one of: '' @ join '', '' valid_statuses"

text \<open>
  \<^verbatim>\<open>create_task\<close>. A truthy body that is not a dict has no \<^verbatim>\<open>get\<close>: the
  AttributeError, like an exception of \<^verbatim>\<open>get_json\<close>, reaches the handler's
  \<^verbatim>\<open>except\<close> clause.
\<close>

definition create_task :: "current_user \<Rightarrow> body \<Rightarrow> db \<Rightarrow> response \<times> db" where
  "create_task cu data d =
     (case data of
        NotJson \<Rightarrow> (error_response ''Failed to create task'' 500, d)
      | _ \<Rightarrow>
        if \<not> truthy data then (error_response ''Request body is required'' 400, d)
        else (case data of
          Object obj \<Rightarrow>
            (let title = sanitize_input (dict_get obj ''title'' (JStr ''''));
                 description = sanitize_input (dict_get obj ''description'' (JStr ''''));
                 status = sanitize_input (dict_get obj ''status'' (JStr ''pending''))
             in if title = [] then (error_response ''Task title is required'' 400, d)
                else if length title > 200
                  then (error_response ''Title must be less than 200 characters'' 400, d)
                else if status \<notin> set valid_statuses
                  then (error_response invalid_status_message 400, d)
                else (let (task_id, d') = TaskModel_create title description status (cu_user_id cu) d
                      in (success_response ''Task created successfully'' (TaskCreated task_id) 201, d')))
        | _ \<Rightarrow> (error_response ''Failed to create task'' 500, d)))"





definition get_task :: "current_user \<Rightarrow> int \<Rightarrow> db \<Rightarrow> response \<times> db" where
  "get_task cu task_id d =
     (case TaskModel_find_by_id task_id d of
        None \<Rightarrow> (error_response ''Task not found'' 404, d)
      | Some t \<Rightarrow>
          if t_user_id t \<noteq> cu_user_id cu \<and> cu_role cu \<noteq> ''admin''
          then (error_response ''You do not have permission to view this task'' 403, d)
          else (success_response ''Task retrieved successfully'' (TaskDetail t) 200, d))"

definition update_task :: "current_user \<Rightarrow> int \<Rightarrow> body \<Rightarrow> db \<Rightarrow> response \<times> db" where
  "update_task cu task_id data d =
     (case TaskModel_find_by_id task_id d of
        None \<Rightarrow> (error_response ''Task not found'' 404, d)
      | Some t \<Rightarrow>
          if t_user_id t \<noteq> cu_user_id cu
          then (error_response ''You do not have permission to update this task'' 403, d)
          else (case data of
            NotJson \<Rightarrow> (error_response ''Failed to update task'' 500, d)
          | _ \<Rightarrow>
            if \<not> truthy data then (error_response ''Request body is required'' 400, d)
            else (case data of
              Object obj \<Rightarrow>
                (let title = sanitize_input (dict_get obj ''title'' (JStr (t_title t)));
                     description = sanitize_input (dict_get obj ''description'' (JStr (t_description t)));
                     status = sanitize_input (dict_get obj ''status'' (JStr (t_status t)))
                 in if title = [] then (error_response ''Task title cannot be empty'' 400, d)
                    else if length title > 200
                      then (error_response ''Title must be less than 200 characters'' 400, d)
                    else if status \<notin> set valid_statuses
                      then (error_response invalid_status_message 400, d)
                    else (let (ok, d') = TaskModel_update task_id (Some title) (Some description)
                                           (Some status) d
                          in (success_response ''Task updated successfully''
                                (TaskUpdated task_id title description status) 200, d')))
            | _ \<Rightarrow> (error_response ''Failed to update task'' 500, d))))"

definition delete_task :: "current_user \<Rightarrow> int \<Rightarrow> db \<Rightarrow> response \<times> db" where
  "delete_task cu task_id d =
     (case TaskModel_find_by_id task_id d of
        None \<Rightarrow> (error_response ''Task not found'' 404, d)
      | Some t \<Rightarrow>
          if t_user_id t \<noteq> cu_user_id cu \<and> cu_role cu \<noteq> ''admin''
          then (error_response ''You do not have permission to delete this task'' 403, d)
          else (let (ok, d') = TaskModel_delete task_id d
                in (success_response ''Task deleted successfully'' NoData 200, d')))"

subsection \<open>\<^verbatim>\<open>middleware/auth_middleware.py\<close>: tokens and the authentication decorator\<close>

text \<open>
  The claim set \<^verbatim>\<open>generate_token\<close> signs: \<^verbatim>\<open>{user_id, role, iat, exp}\<close>, the two
  times in whole seconds as the token carries them. A dict with these four keys is
  truthy, so Python's \<^verbatim>\<open>if not payload\<close> is the test for None.
\<close>

record claims =
  c_user_id :: int
  c_role :: string
  c_iat :: int
  c_exp :: int

text \<open>
  The two exception classes \<^verbatim>\<open>decode_token\<close> catches. Every other error of the
  token library (bad signature, malformed text, wrong algorithm, claim not yet valid)
  is a subclass of \<^verbatim>\<open>InvalidTokenError\<close>; its argument is the exception's text.
\<close>

datatype jwt_error = ExpiredSignatureError | InvalidTokenError string

text \<open>
  The token library (\<^verbatim>\<open>import jwt\<close>) is not part of the repository, so it is a
  parameter of the model: \<^verbatim>\<open>jwt.encode(payload, key, algorithm='HS256')\<close> and
  \<^verbatim>\<open>jwt.decode(token, key, algorithms=['HS256'])\<close>, the latter with the time at
  which it runs.
\<close>

record jwt_lib =
  jwt_encode :: "claims \<Rightarrow> string \<Rightarrow> string"
  jwt_decode :: "string \<Rightarrow> string \<Rightarrow> int \<Rightarrow> jwt_error + claims"

text \<open>
  What the model asks of the library: a token it produced is accepted under the same
  key from its issue time until its expiry time and yields the claims that were
  signed; after the expiry time the library raises \<^verbatim>\<open>ExpiredSignatureError\<close>.
  The instant of expiry itself is left to the library.
\<close>

definition pyjwt_contract :: "jwt_lib \<Rightarrow> bool" where
  "pyjwt_contract jwt =
     (\<forall>p key now. c_iat p \<le> now \<longrightarrow>
        (now < c_exp p \<longrightarrow> jwt_decode jwt (jwt_encode jwt p key) key now = Inr p) \<and>
        (c_exp p < now \<longrightarrow>
           jwt_decode jwt (jwt_encode jwt p key) key now = Inl ExpiredSignatureError))"

record config =
  JWT_SECRET_KEY :: string
  JWT_EXPIRY_HOURS :: int

text \<open>
  \<^verbatim>\<open>generate_token\<close> reads the clock twice, once for \<^verbatim>\<open>iat\<close> and once for
  \<^verbatim>\<open>exp\<close>: \<open>now1\<close> and \<open>now2\<close>.
\<close>

definition generate_token :: "jwt_lib \<Rightarrow> config \<Rightarrow> int \<Rightarrow> int \<Rightarrow> int \<Rightarrow> string \<Rightarrow> string" where
  "generate_token jwt cfg now1 now2 user_id role =
     (let secret_key = JWT_SECRET_KEY cfg;
          expiry_hours = JWT_EXPIRY_HOURS cfg;
          payload = \<lparr>c_user_id = user_id, c_role = role, c_iat = now1,
                     c_exp = now2 + 3600 * expiry_hours\<rparr>
      in jwt_encode jwt payload secret_key)"

text \<open>
  \<^verbatim>\<open>decode_token\<close> returns the payload or None; the second component is what it
  writes to the application log.
\<close>

definition decode_token :: "jwt_lib \<Rightarrow> config \<Rightarrow> int \<Rightarrow> string \<Rightarrow> claims option \<times> string list" where
  "decode_token jwt cfg now token =
     (let secret_key = JWT_SECRET_KEY cfg
      in case jwt_decode jwt token secret_key now of
           Inr payload \<Rightarrow> (Some payload, [])
         | Inl ExpiredSignatureError \<Rightarrow> (None, [''Token expired''])
         | Inl (InvalidTokenError e) \<Rightarrow> (None, [''Invalid token: '' @ e]))"

text \<open>
  \<^verbatim>\<open>token_required\<close> wraps a handler \<open>f\<close>; the handler's other arguments (route
  parameters, request body) are already applied. \<^verbatim>\<open>if auth_header\<close> and
  \<^verbatim>\<open>if not token\<close> are Python truthiness: None and the empty string fail.
\<close>

definition token_required ::
  "jwt_lib \<Rightarrow> config \<Rightarrow> int \<Rightarrow> (current_user \<Rightarrow> db \<Rightarrow> response \<times> db) \<Rightarrow>
   string option \<Rightarrow> db \<Rightarrow> response \<times> db" where
  "token_required jwt cfg now f auth_header d =
     (let token =
            (case auth_header of
               None \<Rightarrow> None
             | Some h \<Rightarrow>
                 if h = [] then None
                 else (let parts = split h
                       in if length parts = 2 \<and> lower (parts ! 0) = ''bearer''
                          then Some (parts ! 1) else None))
      in case token of
           None \<Rightarrow> (error_response ''Authentication token is required'' 401, d)
         | Some tok \<Rightarrow>
             if tok = [] then (error_response ''Authentication token is required'' 401, d)
             else (case fst (decode_token jwt cfg now tok) of
                     None \<Rightarrow> (error_response ''Invalid or expired token'' 401, d)
                   | Some payload \<Rightarrow>
                       f \<lparr>cu_user_id = c_user_id payload, cu_role = c_role payload\<rparr> d))"

subsection \<open>\<^verbatim>\<open>utils/validators.py\<close>: email and password checks\<close>

definition is_upper :: "char \<Rightarrow> bool" where
  "is_upper c = (65 \<le> (of_char c :: nat) \<and> (of_char c :: nat) \<le> 90)"

definition is_lower :: "char \<Rightarrow> bool" where
  "is_lower c = (97 \<le> (of_char c :: nat) \<and> (of_char c :: nat) \<le> 122)"

definition is_digit :: "char \<Rightarrow> bool" where
  "is_digit c = (48 \<le> (of_char c :: nat) \<and> (of_char c :: nat) \<le> 57)"

definition local_char :: "char \<Rightarrow> bool" where
  "local_char c = (is_upper c \<or> is_lower c \<or> is_digit c \<or> c \<in> set ''._%+-'')"

definition domain_char :: "char \<Rightarrow> bool" where
  "domain_char c = (is_upper c \<or> is_lower c \<or> is_digit c \<or> c \<in> set ''.-'')"

text \<open>
  The pattern \<^verbatim>\<open>[a-zA-Z0-9._%+-]+@[a-zA-Z0-9.-]+\.[a-zA-Z]{2,}\<close> against a whole
  string. The first class has no \<^verbatim>\<open>@\<close>, so the local part is the text before the
  first \<^verbatim>\<open>@\<close>; the last class has no dot, so the final label is the text after the
  last dot. The text after the \<^verbatim>\<open>@\<close> is read reversed.
\<close>

definition email_match :: "string \<Rightarrow> bool" where
  "email_match s =
     (let l = takeWhile (\<lambda>c. c \<noteq> CHR ''@'') s;
          r = dropWhile (\<lambda>c. c \<noteq> CHR ''@'') s
      in l \<noteq> [] \<and> list_all local_char l \<and> r \<noteq> [] \<and>
         (let u = rev (tl r);
              a = takeWhile (\<lambda>c. c \<noteq> CHR ''.'') u;
              v = dropWhile (\<lambda>c. c \<noteq> CHR ''.'') u
          in 2 \<le> length a \<and> list_all (\<lambda>c. is_upper c \<or> is_lower c) a \<and>
             v \<noteq> [] \<and> tl v \<noteq> [] \<and> list_all domain_char (tl v)))"

text \<open>
  \<^verbatim>\<open>validate_email\<close>: \<^verbatim>\<open>re.match\<close> with \<^verbatim>\<open>^...$\<close>; the dollar also matches
  before a final newline.
\<close>

definition validate_email :: "string \<Rightarrow> bool" where
  "validate_email email =
     (email \<noteq> [] \<and>
      (email_match email \<or> (last email = CHR 0x0A \<and> email_match (butlast email))))"

definition validate_password :: "string \<Rightarrow> bool \<times> string" where
  "validate_password password =
     (if password = [] then (False, ''Password is required'')
      else if length password < 8 then (False, ''Password must be at least 8 characters long'')
      else if \<not> list_ex is_upper password
        then (False, ''Password must contain at least one uppercase letter'')
      else if \<not> list_ex is_lower password
        then (False, ''Password must contain at least one lowercase letter'')
      else if \<not> list_ex is_digit password
        then (False, ''Password must contain at least one digit'')
      else (True, ''Password is valid''))"

subsection \<open>\<^verbatim>\<open>models/user_model.py\<close> and \<^verbatim>\<open>routes/auth_routes.py\<close>: registration\<close>

text \<open>
  Modelled from the spec: as for tasks, the user table's definition is not among the
  sources; \<^verbatim>\<open>id\<close> is the surrogate key the INSERT returns and \<^verbatim>\<open>created_at\<close> is
  set at creation.
\<close>

definition UserModel_create :: "string \<Rightarrow> string \<Rightarrow> string \<Rightarrow> string \<Rightarrow> db \<Rightarrow> int \<times> db" where
  "UserModel_create email password_hash name role d =
     (next_user_id d,
      d\<lparr>users := users d @
           [\<lparr>u_id = next_user_id d, u_email = email, u_password_hash = password_hash,
             u_name = name, u_role = role, u_created_at = db_clock d\<rparr>],
        next_user_id := next_user_id d + 1\<rparr>)"

definition UserModel_find_by_email :: "string \<Rightarrow> db \<Rightarrow> user_row option" where
  "UserModel_find_by_email email d = find (\<lambda>u. u_email u = email) (users d)"

text \<open>Python truthiness of a field value, as in \<^verbatim>\<open>not password\<close>.\<close>

fun json_truthy :: "json \<Rightarrow> bool" where
  "json_truthy JNull = False"
| "json_truthy (JBool b) = b"
| "json_truthy (JInt i) = (i \<noteq> 0)"
| "json_truthy (JStr s) = (s \<noteq> [])"

text \<open>
  \<^verbatim>\<open>utils/password.py\<close>: \<^verbatim>\<open>password.encode('utf-8')\<close> on code points below 256:
  one byte below 128, two bytes from 128 on.
\<close>

definition encode_utf8 :: "string \<Rightarrow> string" where
  "encode_utf8 s =
     concat (map (\<lambda>c. let n = (of_char c :: nat)
                       in if n < 128 then [c]
                          else [char_of (192 + n div 64), char_of (128 + n mod 64)]) s)"

text \<open>
  \<^verbatim>\<open>hash_password\<close> encodes the password, draws a salt
  (\<^verbatim>\<open>bcrypt.gensalt(rounds=12)\<close>), calls \<^verbatim>\<open>bcrypt.hashpw\<close> and decodes the
  result, with no \<^verbatim>\<open>try\<close> around any of it. The \<^verbatim>\<open>bcrypt\<close> package is not part
  of the repository, so salt and hash are one parameter \<open>bcrypt\<close>: from the password
  bytes to the hash as text (the hash is ASCII, its decoding is the same text), or
  None where \<^verbatim>\<open>hashpw\<close> raises, as releases that refuse a password of more than
  72 bytes do. The exception then leaves \<^verbatim>\<open>hash_password\<close>.
\<close>

definition hash_password :: "(string \<Rightarrow> string option) \<Rightarrow> string \<Rightarrow> string option" where
  "hash_password bcrypt password =
     (let password_bytes = encode_utf8 password
      in bcrypt password_bytes)"

text \<open>
  \<^verbatim>\<open>register\<close>. The password is taken from the body as it is; a truthy password
  that is not a string makes \<^verbatim>\<open>len(password)\<close> raise TypeError. An exception of
  \<^const>\<open>hash_password\<close> reaches the handler's \<^verbatim>\<open>except\<close> clause before any row
  is written.
\<close>

definition register :: "(string \<Rightarrow> string option) \<Rightarrow> body \<Rightarrow> db \<Rightarrow> response \<times> db" where
  "register bcrypt data d =
     (case data of
        NotJson \<Rightarrow> (error_response ''Registration failed'' 500, d)
      | _ \<Rightarrow>
        if \<not> truthy data then (error_response ''Request body is required'' 400, d)
        else (case data of
          Object obj \<Rightarrow>
            (let email = sanitize_input (dict_get obj ''email'' (JStr ''''));
                 password = dict_get obj ''password'' (JStr '''');
                 name = sanitize_input (dict_get obj ''name'' (JStr ''''));
                 role = sanitize_input (dict_get obj ''role'' (JStr ''user''))
             in if email = [] \<or> \<not> json_truthy password \<or> name = []
                  then (error_response ''Email, password, and name are required'' 400, d)
                else if \<not> validate_email email
                  then (error_response ''Invalid email format'' 400, d)
                else (case password of
                  JStr pw \<Rightarrow>
                    (let (password_valid, password_msg) = validate_password pw
                     in if \<not> password_valid then (error_response password_msg 400, d)
                        else (let role = (if role \<notin> set [''user'', ''admin''] then ''user'' else role)
                              in case UserModel_find_by_email email d of
                                   Some existing_user \<Rightarrow>
                                     (error_response ''Email already registered'' 409, d)
                                 | None \<Rightarrow>
                                     (case hash_password bcrypt pw of
                                        None \<Rightarrow> (error_response ''Registration failed'' 500, d)
                                      | Some password_hash \<Rightarrow>
                                          (let (user_id, d') =
                                                 UserModel_create email password_hash name role d
                                           in (success_response ''User registered successfully''
                                                 (UserCreated user_id email) 201, d')))))
                | _ \<Rightarrow> (error_response ''Registration failed'' 500, d)))
        | _ \<Rightarrow> (error_response ''Registration failed'' 500, d)))"

subsection \<open>A token library for concrete runs\<close>

text \<open>
  A small instance of the library parameter that meets \<^const>\<open>pyjwt_contract\<close>, used to
  run the token functions on concrete inputs. A token spells out the key and the
  four claims, numbers in decimal; it stands in for a signed token and is not HS256.
\<close>

definition nat_of_digits :: "string \<Rightarrow> nat" where
  "nat_of_digits s = foldl (\<lambda>a c. 10 * a + (of_char c - 48)) 0 s"

definition enc_nat :: "nat \<Rightarrow> string" where
  "enc_nat n = digits_of n @ '':''"

definition dec_nat :: "string \<Rightarrow> nat \<times> string" where
  "dec_nat s = (nat_of_digits (takeWhile is_digit s), tl (dropWhile is_digit s))"

definition enc_int :: "int \<Rightarrow> string" where
  "enc_int i = (if i < 0 then CHR ''-'' else CHR ''+'') # enc_nat (nat \<bar>i\<bar>)"

definition dec_int :: "string \<Rightarrow> int \<times> string" where
  "dec_int s =
     (case s of
        [] \<Rightarrow> (0, [])
      | c # r \<Rightarrow> (let (n, r') = dec_nat r in (if c = CHR ''-'' then - int n else int n, r')))"

definition enc_str :: "string \<Rightarrow> string" where
  "enc_str t = enc_nat (length t) @ t"

definition dec_str :: "string \<Rightarrow> string \<times> string" where
  "dec_str s = (let (n, r) = dec_nat s in (take n r, drop n r))"

definition demo_encode :: "claims \<Rightarrow> string \<Rightarrow> string" where
  "demo_encode p key =
     enc_str key @ enc_int (c_user_id p) @ enc_str (c_role p) @ enc_int (c_iat p) @ enc_int (c_exp p)"

definition demo_parse :: "string \<Rightarrow> claims \<times> string" where
  "demo_parse s =
     (let (k, r1) = dec_str s;
          (u, r2) = dec_int r1;
          (ro, r3) = dec_str r2;
          (i, r4) = dec_int r3;
          (e, r5) = dec_int r4
      in (\<lparr>c_user_id = u, c_role = ro, c_iat = i, c_exp = e\<rparr>, k))"

definition demo_decode :: "string \<Rightarrow> string \<Rightarrow> int \<Rightarrow> jwt_error + claims" where
  "demo_decode token key now =
     (let (p, k) = demo_parse token
      in if demo_encode p k \<noteq> token then Inl (InvalidTokenError ''Not enough segments'')
         else if k \<noteq> key then Inl (InvalidTokenError ''Signature verification failed'')
         else if now < c_iat p then Inl (InvalidTokenError ''The token is not yet valid (iat)'')
         else if c_exp p \<le> now then Inl ExpiredSignatureError
         else Inr p)"

definition demo_jwt :: jwt_lib where
  "demo_jwt = \<lparr>jwt_encode = demo_encode, jwt_decode = demo_decode\<rparr>"

subsection \<open>Notions used in the statements\<close>



text \<open>The five characters \<^verbatim>\<open>html.escape\<close> rewrites.\<close>

definition html_special :: "char \<Rightarrow> bool" where
  "html_special c = (c \<in> {CHR ''&'', CHR ''<'', CHR ''>'', CHR 0x22, CHR 0x27})"

text \<open>What \<^verbatim>\<open>html.escape\<close> makes of one character.\<close>

definition escape_char :: "char \<Rightarrow> string" where
  "escape_char c =
     (if c = CHR ''&'' then ''&amp;''
      else if c = CHR ''<'' then ''&lt;''
      else if c = CHR ''>'' then ''&gt;''
      else if c = CHR 0x22 then ''&quot;''
      else if c = CHR 0x27 then ''&#x27;''
      else [c])"

subsection \<open>Concrete states for the worked examples\<close>

definition db0 :: db where
  "db0 = \<lparr>tasks = [], users = [], next_task_id = 1, next_user_id = 1, db_clock = 1000,
           db_max_offset = 18446744073709551615\<rparr>"

definition alice :: current_user where
  "alice = \<lparr>cu_user_id = 1, cu_role = ''user''\<rparr>"

definition bob :: current_user where
  "bob = \<lparr>cu_user_id = 2, cu_role = ''user''\<rparr>"

definition root_admin :: current_user where
  "root_admin = \<lparr>cu_user_id = 3, cu_role = ''admin''\<rparr>"

definition demo_config :: config where
  "demo_config = \<lparr>JWT_SECRET_KEY = ''k'', JWT_EXPIRY_HOURS = 24\<rparr>"

definition task1 :: task where
  "task1 = \<lparr>t_id = 1, t_title = ''Buy milk'', t_description = [], t_status = ''pending'',
            t_user_id = 1, t_created_at = 1000\<rparr>"

text \<open>The state after \<open>alice\<close> has created one task in \<^const>\<open>db0\<close>.\<close>

definition db1 :: db where
  "db1 = \<lparr>tasks = [task1], users = [], next_task_id = 2, next_user_id = 1, db_clock = 1000,
           db_max_offset = 18446744073709551615\<rparr>"




text \<open>The state after \<open>alice\<close> has created a task titled \<^verbatim>\<open>Tom & Jerry\<close> in \<^const>\<open>db0\<close>.\<close>

definition db_tom :: db where
  "db_tom = \<lparr>tasks = [\<lparr>t_id = 1, t_title = ''Tom &amp; Jerry'', t_description = [],
                        t_status = ''pending'', t_user_id = 1, t_created_at = 1000\<rparr>],
            users = [], next_task_id = 2, next_user_id = 1, db_clock = 1000,
            db_max_offset = 18446744073709551615\<rparr>"

text \<open>
  A stand-in for \<^verbatim>\<open>bcrypt\<close> in concrete runs: it raises on more than 72 bytes, as
  the releases that refuse such passwords do.
\<close>

definition demo_bcrypt :: "string \<Rightarrow> string option" where
  "demo_bcrypt pw = (if 72 < length pw then None else Some (''bcrypt('' @ pw @ '')''))"

definition signup :: "string \<Rightarrow> json \<Rightarrow> body" where
  "signup pw role = Object [(''email'', JStr ''alice@example.com''), (''password'', JStr pw),
                            (''name'', JStr ''Alice''), (''role'', role)]"

text \<open>A password of 78 characters that meets the password policy.\<close>

definition long_password :: string where
  "long_password = ''Passw0rd'' @ replicate 70 CHR ''x''"


definition user_alice :: "string \<Rightarrow> user_row" where
  "user_alice role = \<lparr>u_id = 1, u_email = ''alice@example.com'',
                      u_password_hash = ''bcrypt(Passw0rd)'', u_name = ''Alice'', u_role = role,
                      u_created_at = 1000\<rparr>"

section \<open>Properties\<close>

subsection \<open>Response and lookup helpers\<close>

lemma status_of_error [simp]: "status_of (error_response m c) = c"
  by (simp add: error_response_def)

lemma status_of_success [simp]: "status_of (success_response m p c) = c"
  by (simp add: success_response_def)

lemma find_task1 [simp]: "TaskModel_find_by_id 1 db1 = Some task1"
  by (simp add: TaskModel_find_by_id_def db1_def task1_def)

lemma find_absent: "TaskModel_find_by_id 7 db1 = None"
  by (simp add: TaskModel_find_by_id_def db1_def task1_def)

subsection \<open>Ownership and role policy on task mutation\<close>

text \<open>
  Claim C1. For a stored task, \<^verbatim>\<open>PUT /tasks/<id>\<close> answers 403 to every caller whose
  user id is not the task's owner id, whatever the caller's role (an admin
  included) and whatever the body; \<^verbatim>\<open>DELETE /tasks/<id>\<close> answers 200 to the owner
  and to any admin, and 403 to a caller who is neither.
\<close>

theorem ownership_policy:
  assumes "TaskModel_find_by_id task_id d = Some t"
  shows "(t_user_id t \<noteq> cu_user_id cu \<longrightarrow>
            status_of (fst (update_task cu task_id data d)) = 403) \<and>
         (t_user_id t = cu_user_id cu \<or> cu_role cu = ''admin'' \<longrightarrow>
            status_of (fst (delete_task cu task_id d)) = 200) \<and>
         (t_user_id t \<noteq> cu_user_id cu \<and> cu_role cu \<noteq> ''admin'' \<longrightarrow>
            status_of (fst (delete_task cu task_id d)) = 403)"
  using assms by (auto simp: update_task_def delete_task_def TaskModel_delete_def)

theorem ownership_policy_witness:
  "status_of (fst (update_task root_admin 1 (Object [(''status'', JStr ''completed'')]) db1)) = 403 \<and>
   status_of (fst (delete_task root_admin 1 db1)) = 200 \<and>
   status_of (fst (delete_task alice 1 db1)) = 200 \<and>
   status_of (fst (delete_task bob 1 db1)) = 403"
  using ownership_policy [of 1 db1 task1 root_admin "Object [(''status'', JStr ''completed'')]"]
        ownership_policy [of 1 db1 task1 alice]
        ownership_policy [of 1 db1 task1 bob]
  by (simp add: task1_def root_admin_def alice_def bob_def)

subsection \<open>Existence of a task id is disclosed before ownership is checked\<close>

text \<open>
  Claim C10. For \<^verbatim>\<open>GET\<close>, \<^verbatim>\<open>PUT\<close> and \<^verbatim>\<open>DELETE\<close> on \<^verbatim>\<open>/tasks/<id>\<close>, reached with
  any authenticated identity, the answer is 404 exactly when no task has that id; a
  403 from the ownership check is only ever given for a task that exists. So the
  status code tells any authenticated caller whether the id exists.
\<close>

theorem existence_disclosure:
  "(status_of (fst (get_task cu task_id d)) = 404 \<longleftrightarrow> TaskModel_find_by_id task_id d = None) \<and>
   (status_of (fst (update_task cu task_id data d)) = 404 \<longleftrightarrow> TaskModel_find_by_id task_id d = None) \<and>
   (status_of (fst (delete_task cu task_id d)) = 404 \<longleftrightarrow> TaskModel_find_by_id task_id d = None) \<and>
   (status_of (fst (get_task cu task_id d)) = 403 \<longrightarrow> TaskModel_find_by_id task_id d \<noteq> None) \<and>
   (status_of (fst (update_task cu task_id data d)) = 403 \<longrightarrow> TaskModel_find_by_id task_id d \<noteq> None) \<and>
   (status_of (fst (delete_task cu task_id d)) = 403 \<longrightarrow> TaskModel_find_by_id task_id d \<noteq> None)"
  by (auto simp: get_task_def update_task_def delete_task_def TaskModel_delete_def
        TaskModel_update_def Let_def
        split: option.splits body.splits if_splits prod.splits)

theorem existence_disclosure_witness:
  "status_of (fst (get_task bob 7 db1)) = 404 \<and>
   status_of (fst (update_task bob 7 (Object [(''status'', JStr ''completed'')]) db1)) = 404 \<and>
   status_of (fst (delete_task bob 7 db1)) = 404 \<and>
   status_of (fst (get_task bob 1 db1)) = 403 \<and>
   status_of (fst (update_task bob 1 (Object [(''status'', JStr ''completed'')]) db1)) = 403 \<and>
   status_of (fst (delete_task bob 1 db1)) = 403 \<and>
   TaskModel_find_by_id 1 db1 \<noteq> None"
  using existence_disclosure [of bob 7 db1 "Object [(''status'', JStr ''completed'')]"]
        existence_disclosure [of bob 1 db1 "Object [(''status'', JStr ''completed'')]"]
  by (simp add: find_absent get_task_def update_task_def delete_task_def task1_def bob_def)

subsection \<open>Strings: splitting and decimal digits\<close>

declare digits_of.simps [simp del]

lemma split_run_nonempty: "x \<in> set (split_run s cur) \<Longrightarrow> x \<noteq> []"
  by (induction s arbitrary: cur) (auto split: if_splits)

lemma split_nonempty: "x \<in> set (split s) \<Longrightarrow> x \<noteq> []"
  unfolding split_def by (rule split_run_nonempty)

lemma digit_char: "(n::nat) < 10 \<Longrightarrow> is_digit (char_of (48 + n))"
  by (simp add: is_digit_def)

lemma digits_of_digit: "c \<in> set (digits_of n) \<Longrightarrow> is_digit c"
proof (induction n rule: digits_of.induct)
  case (1 n)
  show ?case
  proof (cases "n < 10")
    case True
    with "1.prems" show ?thesis by (simp add: digits_of.simps [of n] digit_char)
  next
    case False
    have "is_digit (char_of (48 + n mod 10))" by (rule digit_char) simp
    with False "1.prems" "1.IH" show ?thesis
      by (auto simp: digits_of.simps [of n])
  qed
qed

lemma nat_of_digits_snoc: "nat_of_digits (s @ [c]) = 10 * nat_of_digits s + (of_char c - 48)"
  by (simp add: nat_of_digits_def)

lemma nat_of_digits_of: "nat_of_digits (digits_of n) = n"
proof (induction n rule: digits_of.induct)
  case (1 n)
  show ?case
  proof (cases "n < 10")
    case True
    then show ?thesis by (simp add: digits_of.simps [of n] nat_of_digits_def)
  next
    case False
    have "(48 + n mod 10) mod 256 = 48 + n mod 10" by simp
    with False "1.IH" show ?thesis
      by (simp add: digits_of.simps [of n] nat_of_digits_snoc)
  qed
qed

subsection \<open>The concrete token library meets the contract\<close>

lemma dec_nat_enc: "dec_nat (enc_nat n @ r) = (n, r)"
proof -
  have nd: "\<not> is_digit CHR '':''" by (simp add: is_digit_def)
  have tw: "takeWhile is_digit (digits_of n @ CHR '':'' # r) = digits_of n"
    using nd by (simp add: digits_of_digit)
  have dw: "dropWhile is_digit (digits_of n @ CHR '':'' # r) = CHR '':'' # r"
    using nd by (simp add: digits_of_digit)
  show ?thesis
    by (simp add: dec_nat_def enc_nat_def tw dw nat_of_digits_of)
qed

lemma dec_int_enc: "dec_int (enc_int i @ r) = (i, r)"
  by (simp add: dec_int_def enc_int_def dec_nat_enc)

lemma dec_str_enc: "dec_str (enc_str t @ r) = (t, r)"
  by (simp add: dec_str_def enc_str_def dec_nat_enc)

lemma demo_parse_encode: "demo_parse (demo_encode p k) = (p, k)"
proof -
  have last: "dec_int (enc_int (c_exp p)) = (c_exp p, [])"
    using dec_int_enc [of "c_exp p" "[]"] by simp
  show ?thesis
    unfolding demo_parse_def demo_encode_def
    by (simp add: dec_str_enc dec_int_enc last)
qed

lemma demo_decode_encode:
  "demo_decode (demo_encode p k) k now =
     (if now < c_iat p then Inl (InvalidTokenError ''The token is not yet valid (iat)'')
      else if c_exp p \<le> now then Inl ExpiredSignatureError else Inr p)"
  by (simp add: demo_decode_def demo_parse_encode)

lemma demo_contract: "pyjwt_contract demo_jwt"
  by (simp add: pyjwt_contract_def demo_jwt_def demo_decode_encode)

lemma demo_expired:
  "jwt_decode demo_jwt (generate_token demo_jwt demo_config 1000 1000 7 ''admin'')
     (JWT_SECRET_KEY demo_config) 90000 = Inl ExpiredSignatureError"
  by (simp add: demo_jwt_def generate_token_def demo_decode_encode demo_config_def)

lemma demo_garbage:
  "jwt_decode demo_jwt ''garbage'' (JWT_SECRET_KEY demo_config) 90000 =
     Inl (InvalidTokenError ''Not enough segments'')"
  by (simp add: demo_jwt_def demo_decode_def demo_parse_def dec_str_def dec_int_def dec_nat_def
        demo_encode_def enc_str_def enc_int_def enc_nat_def nat_of_digits_def is_digit_def
        digits_of.simps [of 0])

lemma decode_garbage:
  "decode_token demo_jwt demo_config 90000 ''garbage'' =
     (None, [''Invalid token: Not enough segments''])"
  by (simp add: decode_token_def demo_garbage)

lemma demo_token:
  "generate_token demo_jwt demo_config 1000 1000 1 ''user'' = ''1:k+1:4:user+1000:+87400:''"
  by (simp add: generate_token_def demo_jwt_def demo_config_def demo_encode_def enc_str_def
        enc_int_def enc_nat_def digits_of.simps char_of_eq_iff)

lemma demo_token_ok:
  "decode_token demo_jwt demo_config 2000 ''1:k+1:4:user+1000:+87400:'' =
     (Some \<lparr>c_user_id = 1, c_role = ''user'', c_iat = 1000, c_exp = 87400\<rparr>, [])"
proof -
  have "demo_decode (demo_encode \<lparr>c_user_id = 1, c_role = ''user'', c_iat = 1000, c_exp = 87400\<rparr> ''k'')
          ''k'' 2000 = Inr \<lparr>c_user_id = 1, c_role = ''user'', c_iat = 1000, c_exp = 87400\<rparr>"
    by (simp add: demo_decode_encode)
  moreover have "demo_encode \<lparr>c_user_id = 1, c_role = ''user'', c_iat = 1000, c_exp = 87400\<rparr> ''k'' =
          ''1:k+1:4:user+1000:+87400:''"
    using demo_token by (simp add: generate_token_def demo_jwt_def demo_config_def)
  ultimately show ?thesis
    by (simp add: decode_token_def demo_jwt_def demo_config_def)
qed

lemma split_bearer:
  "split ''Bearer 1:k+1:4:user+1000:+87400:'' = [''Bearer'', ''1:k+1:4:user+1000:+87400:'']"
  "split ''bearer garbage'' = [''bearer'', ''garbage'']"
  "split ''Token 1:k+1:4:user+1000:+87400:'' = [''Token'', ''1:k+1:4:user+1000:+87400:'']"
  "split ''Bearer'' = [''Bearer'']"
  by (simp_all add: split_def is_space_def)

lemma lower_bearer:
  "lower ''Bearer'' = ''bearer''" "lower ''bearer'' = ''bearer''" "lower ''Token'' = ''token''"
  by (simp_all add: lower_def lower_char_def char_of_eq_iff)

subsection \<open>Token round trip\<close>

text \<open>
  Claim C2. With a token library that meets \<^const>\<open>pyjwt_contract\<close>, for every user id
  \<open>u\<close> and role \<open>r\<close>: a token issued by \<^const>\<open>generate_token\<close> for \<open>(u, r)\<close> and
  verified by \<^const>\<open>decode_token\<close> under the same configuration, no earlier than it
  was issued and before its expiry time (the clock reading taken for \<^verbatim>\<open>exp\<close> plus
  \<^verbatim>\<open>JWT_EXPIRY_HOURS\<close> hours), yields the claims with \<^verbatim>\<open>user_id = u\<close> and
  \<^verbatim>\<open>role = r\<close>; verified after the expiry time it yields None and the log line
  \<^verbatim>\<open>Token expired\<close>.
\<close>

theorem token_round_trip:
  assumes "pyjwt_contract jwt" and "now1 \<le> now"
  shows "(now < now2 + 3600 * JWT_EXPIRY_HOURS cfg \<longrightarrow>
            decode_token jwt cfg now (generate_token jwt cfg now1 now2 u r) =
              (Some \<lparr>c_user_id = u, c_role = r, c_iat = now1,
                      c_exp = now2 + 3600 * JWT_EXPIRY_HOURS cfg\<rparr>, [])) \<and>
         (now2 + 3600 * JWT_EXPIRY_HOURS cfg < now \<longrightarrow>
            decode_token jwt cfg now (generate_token jwt cfg now1 now2 u r) =
              (None, [''Token expired'']))"
  using assms
  by (simp add: pyjwt_contract_def decode_token_def generate_token_def Let_def)

theorem token_round_trip_witness:
  "decode_token demo_jwt demo_config 2000 (generate_token demo_jwt demo_config 1000 1000 7 ''admin'') =
     (Some \<lparr>c_user_id = 7, c_role = ''admin'', c_iat = 1000, c_exp = 87400\<rparr>, []) \<and>
   decode_token demo_jwt demo_config 90000 (generate_token demo_jwt demo_config 1000 1000 7 ''admin'') =
     (None, [''Token expired''])"
  using token_round_trip [OF demo_contract, of 1000 2000 1000 demo_config 7 "''admin''"]
        token_round_trip [OF demo_contract, of 1000 90000 1000 demo_config 7 "''admin''"]
  by (simp add: demo_config_def)

subsection \<open>Expired and invalid tokens give the caller the same value\<close>

text \<open>
  Claim C3 says that for some expired token and some malformed token the values
  \<^verbatim>\<open>decode_token\<close> returns differ. They never do: whatever the library, the
  configuration and the two tokens, both calls return None.
\<close>

theorem expired_outcome_counterexample:
  "\<not> (\<exists>jwt cfg now tok1 tok2 e.
        jwt_decode jwt tok1 (JWT_SECRET_KEY cfg) now = Inl ExpiredSignatureError \<and>
        jwt_decode jwt tok2 (JWT_SECRET_KEY cfg) now = Inl (InvalidTokenError e) \<and>
        fst (decode_token jwt cfg now tok1) \<noteq> fst (decode_token jwt cfg now tok2))"
  by (auto simp: decode_token_def)

text \<open>
  Claim C3, amended. When the library reports an expired signature for one token and
  any other invalid-token error for another, \<^verbatim>\<open>decode_token\<close> returns None for
  both; the two outcomes are told apart only by the warning written to the log,
  \<^verbatim>\<open>Token expired\<close> against \<^verbatim>\<open>Invalid token: ...\<close>.
\<close>

theorem expired_and_invalid_outcomes:
  assumes "jwt_decode jwt tok1 (JWT_SECRET_KEY cfg) now = Inl ExpiredSignatureError"
      and "jwt_decode jwt tok2 (JWT_SECRET_KEY cfg) now = Inl (InvalidTokenError e)"
  shows "fst (decode_token jwt cfg now tok1) = None \<and>
         fst (decode_token jwt cfg now tok2) = None \<and>
         snd (decode_token jwt cfg now tok1) = [''Token expired''] \<and>
         snd (decode_token jwt cfg now tok2) = [''Invalid token: '' @ e] \<and>
         snd (decode_token jwt cfg now tok1) \<noteq> snd (decode_token jwt cfg now tok2)"
  using assms by (simp add: decode_token_def)

theorem expired_and_invalid_outcomes_witness:
  "fst (decode_token demo_jwt demo_config 90000
          (generate_token demo_jwt demo_config 1000 1000 7 ''admin'')) = None \<and>
   fst (decode_token demo_jwt demo_config 90000 ''garbage'') = None \<and>
   snd (decode_token demo_jwt demo_config 90000
          (generate_token demo_jwt demo_config 1000 1000 7 ''admin'')) = [''Token expired''] \<and>
   snd (decode_token demo_jwt demo_config 90000 ''garbage'') =
     [''Invalid token: Not enough segments'']"
  using expired_and_invalid_outcomes [OF demo_expired demo_garbage]
  by simp

subsection \<open>Bearer-header authentication\<close>

text \<open>
  Claim C8. \<^verbatim>\<open>token_required\<close> answers 401 without running the handler exactly in
  these cases: the \<^verbatim>\<open>Authorization\<close> header is absent; its value does not split
  into exactly two whitespace-separated parts; the first part, lower-cased, is not
  \<^verbatim>\<open>bearer\<close> (all three: \<^verbatim>\<open>Authentication token is required\<close>); or
  \<^verbatim>\<open>decode_token\<close> returns None for the second part
  (\<^verbatim>\<open>Invalid or expired token\<close>). In the one remaining case the result is the
  handler's, run with the \<^verbatim>\<open>user_id\<close> and \<^verbatim>\<open>role\<close> of the decoded claims.
\<close>

theorem bearer_authentication:
  "(auth_header = None \<longrightarrow>
      token_required jwt cfg now f auth_header d =
        (error_response ''Authentication token is required'' 401, d)) \<and>
   (\<forall>h. auth_header = Some h \<longrightarrow>
      (length (split h) \<noteq> 2 \<or> lower (split h ! 0) \<noteq> ''bearer'' \<longrightarrow>
         token_required jwt cfg now f auth_header d =
           (error_response ''Authentication token is required'' 401, d)) \<and>
      (length (split h) = 2 \<and> lower (split h ! 0) = ''bearer'' \<longrightarrow>
         (fst (decode_token jwt cfg now (split h ! 1)) = None \<longrightarrow>
            token_required jwt cfg now f auth_header d =
              (error_response ''Invalid or expired token'' 401, d)) \<and>
         (\<forall>p. fst (decode_token jwt cfg now (split h ! 1)) = Some p \<longrightarrow>
            token_required jwt cfg now f auth_header d =
              f \<lparr>cu_user_id = c_user_id p, cu_role = c_role p\<rparr> d)))"
proof -
  have empty: "split [] = []" by (simp add: split_def)
  have part: "length (split h) = 2 \<Longrightarrow> split h ! 1 \<noteq> []" for h
    using split_nonempty [of "split h ! 1" h] by simp
  show ?thesis
    using part by (auto simp: token_required_def Let_def empty split: option.splits)
qed

theorem bearer_authentication_witness:
  "token_required demo_jwt demo_config 2000 (\<lambda>cu. get_task cu 1) None db1 =
     (error_response ''Authentication token is required'' 401, db1) \<and>
   token_required demo_jwt demo_config 2000 (\<lambda>cu. get_task cu 1) (Some ''Bearer'') db1 =
     (error_response ''Authentication token is required'' 401, db1) \<and>
   token_required demo_jwt demo_config 2000 (\<lambda>cu. get_task cu 1)
       (Some ''Token 1:k+1:4:user+1000:+87400:'') db1 =
     (error_response ''Authentication token is required'' 401, db1) \<and>
   token_required demo_jwt demo_config 90000 (\<lambda>cu. get_task cu 1) (Some ''bearer garbage'') db1 =
     (error_response ''Invalid or expired token'' 401, db1) \<and>
   token_required demo_jwt demo_config 2000 (\<lambda>cu. get_task cu 1)
       (Some ''Bearer 1:k+1:4:user+1000:+87400:'') db1 =
     get_task \<lparr>cu_user_id = 1, cu_role = ''user''\<rparr> 1 db1"
  using bearer_authentication [of None demo_jwt demo_config 2000 "\<lambda>cu. get_task cu 1" db1]
        bearer_authentication [of "Some ''Bearer''" demo_jwt demo_config 2000 "\<lambda>cu. get_task cu 1" db1]
        bearer_authentication [of "Some ''Token 1:k+1:4:user+1000:+87400:''" demo_jwt demo_config 2000
           "\<lambda>cu. get_task cu 1" db1]
        bearer_authentication [of "Some ''bearer garbage''" demo_jwt demo_config 90000
           "\<lambda>cu. get_task cu 1" db1]
        bearer_authentication [of "Some ''Bearer 1:k+1:4:user+1000:+87400:''" demo_jwt demo_config 2000
           "\<lambda>cu. get_task cu 1" db1]
  by (simp add: split_bearer lower_bearer demo_token_ok decode_garbage)

subsection \<open>Pagination arithmetic\<close>



lemma length_order [simp]: "length (order_by_created_desc ts) = length ts"
  by (simp add: order_by_created_desc_def)








subsection \<open>Sanitization: what \<^verbatim>\<open>sanitize_input\<close> does to a value\<close>

lemma replace_char_Nil [simp]: "replace_char c r [] = []"
  by (simp add: replace_char_def)

lemma replace_char_Cons [simp]:
  "replace_char c r (x # xs) = (if x = c then r else [x]) @ replace_char c r xs"
  by (simp add: replace_char_def)

lemma replace_char_append [simp]:
  "replace_char c r (xs @ ys) = replace_char c r xs @ replace_char c r ys"
  by (simp add: replace_char_def)

lemma html_escape_Nil [simp]: "html_escape [] = []"
  by (simp add: html_escape_def)

lemma html_escape_Cons: "html_escape (x # xs) = escape_char x @ html_escape xs"
  by (simp add: html_escape_def escape_char_def)

lemma html_escape_concat: "html_escape s = concat (map escape_char s)"
  by (induction s) (simp_all add: html_escape_Cons)

lemma escape_char_plain: "\<not> html_special c \<Longrightarrow> escape_char c = [c]"
  by (simp add: html_special_def escape_char_def)

lemma escape_char_special: "html_special c \<Longrightarrow> CHR ''&'' \<in> set (escape_char c)"
  by (auto simp: html_special_def escape_char_def)

lemma escape_char_length: "1 \<le> length (escape_char c)"
  by (simp add: escape_char_def)

lemma html_escape_plain: "\<forall>c\<in>set s. \<not> html_special c \<Longrightarrow> html_escape s = s"
  by (induction s) (simp_all add: html_escape_Cons escape_char_plain)

lemma html_escape_special:
  "\<exists>c\<in>set s. html_special c \<Longrightarrow> CHR ''&'' \<in> set (html_escape s)"
  by (induction s) (auto simp: html_escape_Cons escape_char_special)

lemma html_escape_length: "length s \<le> length (html_escape s)"
proof (induction s)
  case Nil
  show ?case by simp
next
  case (Cons x xs)
  have "1 \<le> length (escape_char x)" by (rule escape_char_length)
  with Cons show ?case by (simp add: html_escape_Cons)
qed

lemma html_escape_empty: "html_escape s = [] \<longleftrightarrow> s = []"
  using html_escape_length [of s] by auto

lemma html_escape_eq_plain:
  assumes "\<forall>c\<in>set w. \<not> html_special c"
  shows "html_escape x = w \<longleftrightarrow> x = w"
proof
  assume e: "html_escape x = w"
  have amp: "html_special CHR ''&''" by (simp add: html_special_def)
  have "\<forall>c\<in>set x. \<not> html_special c"
  proof (rule ccontr)
    assume "\<not> (\<forall>c\<in>set x. \<not> html_special c)"
    then have "CHR ''&'' \<in> set (html_escape x)" using html_escape_special [of x] by blast
    with e assms amp show False by blast
  qed
  then have "html_escape x = x" by (rule html_escape_plain)
  with e show "x = w" by simp
next
  assume "x = w"
  with assms show "html_escape x = w" by (simp add: html_escape_plain)
qed

lemma set_strip: "set (strip s) \<subseteq> set s"
proof -
  have "set (strip s) = set (dropWhile is_space (rev (dropWhile is_space s)))"
    by (simp add: strip_def)
  also have "\<dots> \<subseteq> set (rev (dropWhile is_space s))" by (rule set_dropWhileD [THEN subsetI]) 
  also have "\<dots> \<subseteq> set s" using set_dropWhileD [of _ is_space s] by auto
  finally show ?thesis .
qed

lemma dropWhile_hd: "xs \<noteq> [] \<Longrightarrow> \<not> P (hd xs) \<Longrightarrow> dropWhile P xs = xs"
  by (cases xs) simp_all

lemma strip_plain:
  assumes "s \<noteq> []" and "\<not> is_space (hd s)" and "\<not> is_space (last s)"
  shows "strip s = s"
proof -
  have a: "dropWhile is_space s = s" using assms(1,2) by (rule dropWhile_hd)
  have "dropWhile is_space (rev s) = rev s"
    using assms(1,3) by (intro dropWhile_hd) (simp_all add: hd_rev)
  with a show ?thesis by (simp add: strip_def)
qed

lemma strip_Nil [simp]: "strip [] = []"
  by (simp add: strip_def)

lemma digits_chars: "set (str_of_int i) \<subseteq> {c. is_digit c \<or> c = CHR ''-''}"
  by (auto simp: str_of_int_def dest: digits_of_digit)

lemma sanitize_int_chars: "set (sanitize_input (JInt i)) \<subseteq> {c. is_digit c \<or> c = CHR ''-''}"
proof -
  have sub: "set (strip (str_of_int i)) \<subseteq> {c. is_digit c \<or> c = CHR ''-''}"
    using set_strip [of "str_of_int i"] digits_chars [of i] by blast
  then have "\<forall>c\<in>set (strip (str_of_int i)). \<not> html_special c"
    by (auto simp: html_special_def is_digit_def)
  then have "html_escape (strip (str_of_int i)) = strip (str_of_int i)"
    by (rule html_escape_plain)
  with sub show ?thesis by (simp add: sanitize_input_def)
qed

lemma sanitize_bool:
  "sanitize_input (JBool b) = (if b then ''True'' else ''False'')"
  by (simp add: sanitize_input_def strip_def is_space_def html_escape_Cons escape_char_def)

text \<open>A plain word: non-empty, free of HTML-special characters, not made of digits and
  minus signs only, and neither of the two texts Python prints for a boolean.\<close>

lemma sanitize_eq_plain:
  assumes plain: "\<forall>c\<in>set w. \<not> html_special c"
      and ne: "w \<noteq> []"
      and letter: "\<exists>c\<in>set w. \<not> is_digit c \<and> c \<noteq> CHR ''-''"
      and nb: "w \<noteq> ''True''" "w \<noteq> ''False''"
  shows "sanitize_input v = w \<longleftrightarrow> (\<exists>s. v = JStr s \<and> strip s = w)"
proof (cases v)
  case JNull
  with ne show ?thesis by (auto simp: sanitize_input_def)
next
  case (JBool b)
  with nb show ?thesis by (auto simp: sanitize_bool)
next
  case (JInt i)
  have "sanitize_input (JInt i) \<noteq> w"
    using sanitize_int_chars [of i] letter by blast
  with JInt show ?thesis by simp
next
  case (JStr s)
  have "sanitize_input (JStr s) = html_escape (strip s)" by (simp add: sanitize_input_def)
  with JStr show ?thesis by (simp add: html_escape_eq_plain [OF plain])
qed

lemma valid_status_plain:
  assumes "w \<in> set valid_statuses"
  shows "sanitize_input v = w \<longleftrightarrow> (\<exists>s. v = JStr s \<and> strip s = w)"
proof (rule sanitize_eq_plain)
  show "\<forall>c\<in>set w. \<not> html_special c" using assms by (auto simp: valid_statuses_def html_special_def)
  show "w \<noteq> []" using assms by (auto simp: valid_statuses_def)
  show "\<exists>c\<in>set w. \<not> is_digit c \<and> c \<noteq> CHR ''-''" using assms by (auto simp: valid_statuses_def is_digit_def)
  show "w \<noteq> ''True''" "w \<noteq> ''False''" using assms by (auto simp: valid_statuses_def)
qed

lemma sanitize_valid_status:
  "sanitize_input v \<in> set valid_statuses \<longleftrightarrow> (\<exists>s. v = JStr s \<and> strip s \<in> set valid_statuses)"
  using valid_status_plain by metis

subsection \<open>Task-creation validation\<close>

lemma escape_ampersands: "length (html_escape (replicate n CHR ''&'')) = 5 * n"
  by (induction n) (simp_all add: html_escape_Cons escape_char_def)

lemma strip_ampersands: "0 < n \<Longrightarrow> strip (replicate n CHR ''&'') = replicate n CHR ''&''"
  by (rule strip_plain) (simp_all add: is_space_def)

lemma invalid_status_text:
  "invalid_status_message = ''Invalid status. Must be one of: pending, in_progress, completed, cancelled''"
  by (simp add: invalid_status_message_def valid_statuses_def)

text \<open>
  Claim C5 promises 201 for every title that is non-empty after trimming and at most
  200 characters long. The handler measures the title after HTML escaping: a title of
  41 ampersands has 41 characters, becomes 205 characters, and is rejected with 400.
\<close>

theorem create_task_validation_counterexample:
  "length (replicate 41 CHR ''&'') \<le> 200 \<and>
   strip (replicate 41 CHR ''&'') \<noteq> [] \<and>
   create_task alice (Object [(''title'', JStr (replicate 41 CHR ''&''))]) db0 =
     (error_response ''Title must be less than 200 characters'' 400, db0)"
proof -
  have s: "sanitize_input (JStr (replicate 41 CHR ''&'')) = html_escape (replicate 41 CHR ''&'')"
    by (simp add: sanitize_input_def strip_ampersands)
  have l: "length (html_escape (replicate 41 CHR ''&'')) = 205"
    by (simp add: escape_ampersands)
  have n: "html_escape (replicate 41 CHR ''&'') \<noteq> []"
    using l by auto
  show ?thesis
    by (simp add: create_task_def dict_get_def Let_def s l n strip_ampersands)
qed

text \<open>
  Claim C5, amended. For an authenticated \<^verbatim>\<open>POST /tasks\<close> whose body is a non-empty
  JSON object, let \<open>title\<close>, \<open>description\<close> and \<open>status\<close> be the fields after
  \<^const>\<open>sanitize_input\<close> (trimmed and HTML-escaped; a missing title is empty, a missing
  status is \<^verbatim>\<open>pending\<close>). If \<open>title\<close> is non-empty and at most 200 characters and
  \<open>status\<close> is one of the four values, the answer is 201 with the new task id and
  the row is stored; if \<open>title\<close> is empty or longer than 200 characters, or \<open>status\<close>
  is none of the four, the answer is 400 and nothing is stored, and for an invalid
  status under a valid title the message lists the four values. A title
  without HTML-special characters is only trimmed.
\<close>

theorem create_task_validation:
  assumes "obj \<noteq> []"
      and "title = sanitize_input (dict_get obj ''title'' (JStr []))"
      and "description = sanitize_input (dict_get obj ''description'' (JStr []))"
      and "status = sanitize_input (dict_get obj ''status'' (JStr ''pending''))"
  shows "(title \<noteq> [] \<and> length title \<le> 200 \<and> status \<in> set valid_statuses \<longrightarrow>
            create_task cu (Object obj) d =
              (success_response ''Task created successfully'' (TaskCreated (next_task_id d)) 201,
               d\<lparr>tasks := tasks d @
                    [\<lparr>t_id = next_task_id d, t_title = title, t_description = description,
                      t_status = status, t_user_id = cu_user_id cu, t_created_at = db_clock d\<rparr>],
                 next_task_id := next_task_id d + 1\<rparr>)) \<and>
         (title = [] \<or> 200 < length title \<or> status \<notin> set valid_statuses \<longrightarrow>
            status_of (fst (create_task cu (Object obj) d)) = 400 \<and>
            snd (create_task cu (Object obj) d) = d) \<and>
         (title \<noteq> [] \<and> length title \<le> 200 \<and> status \<notin> set valid_statuses \<longrightarrow>
            fst (create_task cu (Object obj) d) =
              error_response
                ''Invalid status. Must be one of: pending, in_progress, completed, cancelled'' 400) \<and>
         (map_of obj ''status'' = None \<longrightarrow> status = ''pending'') \<and>
         (\<forall>t. map_of obj ''title'' = Some (JStr t) \<and> (\<forall>c\<in>set t. \<not> html_special c) \<longrightarrow>
               title = strip t)"
proof -
  have pending: "sanitize_input (JStr ''pending'') = ''pending''"
    using valid_status_plain [of "''pending''" "JStr ''pending''"]
    by (simp add: valid_statuses_def strip_def is_space_def)
  have plain: "(\<forall>c\<in>set t. \<not> html_special c) \<Longrightarrow> sanitize_input (JStr t) = strip t" for t
    using set_strip [of t] by (auto simp: sanitize_input_def intro!: html_escape_plain)
  show ?thesis
    using assms pending plain
    by (auto simp: create_task_def Let_def TaskModel_create_def invalid_status_text dict_get_def)
qed

lemma sanitize_examples:
  "sanitize_input (JStr []) = []"
  "sanitize_input (JStr '' Buy milk '') = ''Buy milk''"
  "sanitize_input (JStr ''Buy milk'') = ''Buy milk''"
  "sanitize_input (JStr ''   '') = []"
  "sanitize_input (JStr ''pending'') = ''pending''"
  "sanitize_input (JStr '' pending'') = ''pending''"
  "sanitize_input (JStr ''completed'') = ''completed''"
  "sanitize_input (JStr ''bogus'') = ''bogus''"
  "sanitize_input (JStr ''Tom & Jerry'') = ''Tom &amp; Jerry''"
  "sanitize_input (JStr ''Tom &amp; Jerry'') = ''Tom &amp;amp; Jerry''"
  by (simp_all add: sanitize_input_def strip_def is_space_def html_escape_Cons escape_char_def)

theorem create_task_validation_witness:
  "create_task alice (Object [(''title'', JStr '' Buy milk '')]) db0 =
     (success_response ''Task created successfully'' (TaskCreated 1) 201, db1) \<and>
   fst (create_task alice (Object [(''title'', JStr ''Buy milk''), (''status'', JStr ''bogus'')]) db0) =
     error_response ''Invalid status. Must be one of: pending, in_progress, completed, cancelled'' 400 \<and>
   snd (create_task alice (Object [(''title'', JStr ''Buy milk''), (''status'', JStr ''bogus'')]) db0) = db0 \<and>
   status_of (fst (create_task alice (Object [(''title'', JStr ''   '')]) db0)) = 400"
  using create_task_validation [of "[(''title'', JStr '' Buy milk '')]" "''Buy milk''" "[]" "''pending''"
          alice db0]
        create_task_validation [of "[(''title'', JStr ''Buy milk''), (''status'', JStr ''bogus'')]"
          "''Buy milk''" "[]" "''bogus''" alice db0]
        create_task_validation [of "[(''title'', JStr ''   '')]" "[]" "[]" "''pending''" alice db0]
  by (simp add: dict_get_def sanitize_examples valid_statuses_def db0_def db1_def task1_def alice_def
        html_special_def strip_def is_space_def)

subsection \<open>Status enum closure\<close>

text \<open>
  Claim C6 promises 400 for every status value that is not one of the four. The value
  \<^verbatim>\<open>" pending"\<close>, with a leading space, is none of the four; the handler trims it
  first, answers 201 and stores the task.
\<close>

theorem status_enum_closure_counterexample:
  "'' pending'' \<notin> set valid_statuses \<and>
   create_task alice (Object [(''title'', JStr ''Buy milk''), (''status'', JStr '' pending'')]) db0 =
     (success_response ''Task created successfully'' (TaskCreated 1) 201, db1)"
  by (simp add: create_task_def dict_get_def Let_def sanitize_examples valid_statuses_def
        TaskModel_create_def db0_def db1_def task1_def alice_def)

text \<open>
  Claim C6, amended. For a create or update request with a non-empty JSON object body
  whose status value, once surrounding whitespace is trimmed, is not one of the four
  enumerated values (any value that is not a string counts as such; \<^verbatim>\<open>"bogus"\<close> is
  an example): the stored state is unchanged; the create answers 400; the update
  answers 400 when the task exists and the caller owns it.
\<close>

theorem status_enum_closure:
  assumes "obj \<noteq> []" and "map_of obj ''status'' = Some v"
      and "\<not> (\<exists>s. v = JStr s \<and> strip s \<in> set valid_statuses)"
  shows "status_of (fst (create_task cu (Object obj) d)) = 400 \<and>
         snd (create_task cu (Object obj) d) = d \<and>
         snd (update_task cu task_id (Object obj) d) = d \<and>
         (\<forall>t. TaskModel_find_by_id task_id d = Some t \<and> t_user_id t = cu_user_id cu \<longrightarrow>
               status_of (fst (update_task cu task_id (Object obj) d)) = 400)"
proof -
  have bad: "sanitize_input v \<notin> set valid_statuses"
    using assms(3) by (simp add: sanitize_valid_status)
  have c: "status_of (fst (create_task cu (Object obj) d)) = 400 \<and>
           snd (create_task cu (Object obj) d) = d"
    using assms(1,2) bad by (simp add: create_task_def Let_def dict_get_def)
  have u: "snd (update_task cu task_id (Object obj) d) = d"
    using assms(1,2) bad
    by (simp add: update_task_def Let_def dict_get_def split: option.splits)
  have o: "\<forall>t. TaskModel_find_by_id task_id d = Some t \<and> t_user_id t = cu_user_id cu \<longrightarrow>
               status_of (fst (update_task cu task_id (Object obj) d)) = 400"
    using assms(1,2) bad by (simp add: update_task_def Let_def dict_get_def)
  from c u o show ?thesis by simp
qed

lemma bogus_invalid: "\<not> (\<exists>s. JStr ''bogus'' = JStr s \<and> strip s \<in> set valid_statuses)"
  by (simp add: valid_statuses_def strip_def is_space_def)

theorem status_enum_closure_witness:
  "status_of (fst (create_task alice
      (Object [(''title'', JStr ''Buy milk''), (''status'', JStr ''bogus'')]) db1)) = 400 \<and>
   snd (create_task alice
      (Object [(''title'', JStr ''Buy milk''), (''status'', JStr ''bogus'')]) db1) = db1 \<and>
   snd (update_task alice 1
      (Object [(''title'', JStr ''Buy milk''), (''status'', JStr ''bogus'')]) db1) = db1 \<and>
   status_of (fst (update_task alice 1
      (Object [(''title'', JStr ''Buy milk''), (''status'', JStr ''bogus'')]) db1)) = 400"
  using status_enum_closure [of "[(''title'', JStr ''Buy milk''), (''status'', JStr ''bogus'')]"
          "JStr ''bogus''" alice db1 1, OF _ _ bogus_invalid]
  by (simp add: task1_def alice_def)

subsection \<open>What an update stores\<close>

text \<open>
  After a successful update every row with the id holds the sanitized form of the
  submitted field, or, for a field absent from the body, the sanitized form of the
  value read from the store.
\<close>

lemma update_task_stored:
  assumes "TaskModel_find_by_id task_id d = Some t"
      and "status_of (fst (update_task cu task_id (Object obj) d)) = 200"
  shows "tasks (snd (update_task cu task_id (Object obj) d)) =
           map (\<lambda>r. if t_id r = task_id
                     then r\<lparr>t_title := sanitize_input (dict_get obj ''title'' (JStr (t_title t))),
                            t_description :=
                              sanitize_input (dict_get obj ''description'' (JStr (t_description t))),
                            t_status := sanitize_input (dict_get obj ''status'' (JStr (t_status t)))\<rparr>
                     else r)
               (tasks d)"
  using assms
  by (auto simp: update_task_def Let_def TaskModel_update_def set_columns_def
        split: if_splits)

lemma sanitize_fixed:
  assumes "\<forall>c\<in>set x. \<not> html_special c" and "strip x = x"
  shows "sanitize_input (JStr x) = x"
  using assms by (simp add: sanitize_input_def html_escape_plain)

text \<open>
  So a field absent from the body keeps its stored value when that value is free of
  HTML-special characters and of surrounding whitespace.
\<close>

lemma update_frame_plain:
  assumes "TaskModel_find_by_id task_id d = Some t"
      and "status_of (fst (update_task cu task_id (Object obj) d)) = 200"
      and "r \<in> set (tasks (snd (update_task cu task_id (Object obj) d)))"
      and "t_id r = task_id"
  shows "(map_of obj ''title'' = None \<and> (\<forall>c\<in>set (t_title t). \<not> html_special c) \<and>
            strip (t_title t) = t_title t \<longrightarrow> t_title r = t_title t) \<and>
         (map_of obj ''description'' = None \<and> (\<forall>c\<in>set (t_description t). \<not> html_special c) \<and>
            strip (t_description t) = t_description t \<longrightarrow> t_description r = t_description t) \<and>
         (map_of obj ''status'' = None \<and> (\<forall>c\<in>set (t_status t). \<not> html_special c) \<and>
            strip (t_status t) = t_status t \<longrightarrow> t_status r = t_status t)"
proof -
  let ?new = "\<lambda>r. r\<lparr>t_title := sanitize_input (dict_get obj ''title'' (JStr (t_title t))),
                       t_description :=
                         sanitize_input (dict_get obj ''description'' (JStr (t_description t))),
                       t_status := sanitize_input (dict_get obj ''status'' (JStr (t_status t)))\<rparr>"
  from assms(3) obtain r0 where r0: "r0 \<in> set (tasks d)"
      and r: "r = (if t_id r0 = task_id then ?new r0 else r0)"
    unfolding update_task_stored [OF assms(1,2)] by auto
  have same: "t_id r0 = task_id"
    using r assms(4) by (cases "t_id r0 = task_id") simp_all
  then have "r = ?new r0" using r by simp
  then have fields:
    "t_title r = sanitize_input (dict_get obj ''title'' (JStr (t_title t)))"
    "t_description r = sanitize_input (dict_get obj ''description'' (JStr (t_description t)))"
    "t_status r = sanitize_input (dict_get obj ''status'' (JStr (t_status t)))"
    by simp_all
  show ?thesis
    unfolding fields by (simp add: dict_get_def sanitize_fixed)
qed

text \<open>
  Claim C4 says that a field absent from the body of a successful \<^verbatim>\<open>PUT\<close> keeps its
  stored value. The handler passes the stored value through \<^const>\<open>sanitize_input\<close>
  again, so a stored title that holds an escaped character is escaped a second time:
  a task created with the title \<^verbatim>\<open>Tom & Jerry\<close> is stored as
  \<^verbatim>\<open>Tom &amp; Jerry\<close>, and after the owner's update of the status alone, answered
  200, the stored title is \<^verbatim>\<open>Tom &amp;amp; Jerry\<close>.
\<close>

theorem update_frame_failure:
  "create_task alice (Object [(''title'', JStr ''Tom & Jerry'')]) db0 =
     (success_response ''Task created successfully'' (TaskCreated 1) 201, db_tom) \<and>
   map t_title (tasks db_tom) = [''Tom &amp; Jerry''] \<and>
   map_of [(''status'', JStr ''completed'')] ''title'' = None \<and>
   status_of (fst (update_task alice 1 (Object [(''status'', JStr ''completed'')]) db_tom)) = 200 \<and>
   map t_title (tasks (snd (update_task alice 1 (Object [(''status'', JStr ''completed'')]) db_tom))) =
     [''Tom &amp;amp; Jerry'']"
  by (simp add: create_task_def update_task_def dict_get_def Let_def sanitize_examples
        valid_statuses_def TaskModel_create_def TaskModel_update_def TaskModel_find_by_id_def
        set_columns_def db0_def db_tom_def alice_def)

subsection \<open>Role handling at registration\<close>

lemma email_example: "validate_email ''alice@example.com''"
  by (simp add: validate_email_def email_match_def Let_def local_char_def domain_char_def
        is_upper_def is_lower_def is_digit_def)

lemma password_example: "validate_password ''Passw0rd'' = (True, ''Password is valid'')"
  by (simp add: validate_password_def is_upper_def is_lower_def is_digit_def)

lemma long_password_valid: "validate_password long_password = (True, ''Password is valid'')"
  by (simp add: validate_password_def long_password_def is_upper_def is_lower_def is_digit_def)

lemma encode_utf8_ascii: "\<forall>c\<in>set s. (of_char c :: nat) < 128 \<Longrightarrow> encode_utf8 s = s"
  by (induction s) (simp_all add: encode_utf8_def)

lemma hash_example: "hash_password demo_bcrypt ''Passw0rd'' = Some ''bcrypt(Passw0rd)''"
  by (simp add: hash_password_def encode_utf8_def demo_bcrypt_def)

lemma hash_long: "hash_password demo_bcrypt long_password = None"
proof -
  have "\<forall>c\<in>set long_password. (of_char c :: nat) < 128"
    by (auto simp: long_password_def)
  then have "encode_utf8 long_password = long_password" by (rule encode_utf8_ascii)
  then show ?thesis
    by (simp add: hash_password_def demo_bcrypt_def long_password_def)
qed

lemma sanitize_signup:
  "sanitize_input (JStr ''alice@example.com'') = ''alice@example.com''"
  "sanitize_input (JStr ''Alice'') = ''Alice''"
  "sanitize_input (JStr ''admin'') = ''admin''"
  "sanitize_input (JStr '' admin'') = ''admin''"
  "sanitize_input (JStr ''superuser'') = ''superuser''"
  by (simp_all add: sanitize_input_def strip_def is_space_def html_escape_Cons escape_char_def)

text \<open>
  Claim C9 says that any role value outside \<^verbatim>\<open>{user, admin}\<close> is replaced by
  \<^verbatim>\<open>user\<close>. The value \<^verbatim>\<open>" admin"\<close>, with a leading space, is outside that set; the
  handler trims it first and stores the role \<^verbatim>\<open>admin\<close>.
\<close>

theorem register_role_counterexample:
  "'' admin'' \<notin> set [''user'', ''admin''] \<and>
   register demo_bcrypt (signup ''Passw0rd'' (JStr '' admin'')) db0 =
     (success_response ''User registered successfully'' (UserCreated 1 ''alice@example.com'') 201,
      db0\<lparr>users := [user_alice ''admin''], next_user_id := 2\<rparr>)"
  by (simp add: register_def signup_def dict_get_def Let_def sanitize_signup email_example
        password_example hash_example UserModel_find_by_email_def UserModel_create_def db0_def
        user_alice_def)

text \<open>
  Claim C9, amended. \<^verbatim>\<open>POST /register\<close> takes no token. For a request that passes
  the other checks (non-empty object body, valid email and name, a string password
  that meets the policy, email not yet registered) the role value never leads to a
  400: when the password hasher returns, the answer is 201 and the user is stored,
  with the role \<^verbatim>\<open>admin\<close> exactly when the body's role is a string that is
  \<^verbatim>\<open>admin\<close> once surrounding whitespace is trimmed, and with the role \<^verbatim>\<open>user\<close> in
  every other case (role absent, any other string, any value that is not a string);
  when the hasher raises, the answer is 500 and no user is stored.
\<close>

theorem register_role:
  assumes "obj \<noteq> []"
      and "email = sanitize_input (dict_get obj ''email'' (JStr []))"
      and "name = sanitize_input (dict_get obj ''name'' (JStr []))"
      and "dict_get obj ''password'' (JStr []) = JStr pw"
      and "role = sanitize_input (dict_get obj ''role'' (JStr ''user''))"
      and "name \<noteq> []" and "validate_email email" and "fst (validate_password pw)"
      and "UserModel_find_by_email email d = None"
  shows "(\<forall>ph. hash_password bcrypt pw = Some ph \<longrightarrow>
            register bcrypt (Object obj) d =
              (success_response ''User registered successfully''
                 (UserCreated (next_user_id d) email) 201,
               d\<lparr>users := users d @
                    [\<lparr>u_id = next_user_id d, u_email = email, u_password_hash = ph,
                      u_name = name, u_role = (if role = ''admin'' then ''admin'' else ''user''),
                      u_created_at = db_clock d\<rparr>],
                 next_user_id := next_user_id d + 1\<rparr>)) \<and>
         (hash_password bcrypt pw = None \<longrightarrow>
            register bcrypt (Object obj) d = (error_response ''Registration failed'' 500, d)) \<and>
         (role = ''admin'' \<longleftrightarrow> (\<exists>s. map_of obj ''role'' = Some (JStr s) \<and> strip s = ''admin''))"
proof -
  have e: "email \<noteq> []" using assms(7) by (auto simp: validate_email_def)
  have p: "pw \<noteq> []" using assms(8) by (auto simp: validate_password_def)
  have ok: "hash_password bcrypt pw = Some ph \<Longrightarrow>
            register bcrypt (Object obj) d =
              (success_response ''User registered successfully''
                 (UserCreated (next_user_id d) email) 201,
               d\<lparr>users := users d @
                    [\<lparr>u_id = next_user_id d, u_email = email, u_password_hash = ph,
                      u_name = name, u_role = (if role = ''admin'' then ''admin'' else ''user''),
                      u_created_at = db_clock d\<rparr>],
                 next_user_id := next_user_id d + 1\<rparr>)" for ph
    using assms e p
    by (auto simp: register_def Let_def UserModel_create_def split: prod.splits)
  have raised: "hash_password bcrypt pw = None \<Longrightarrow>
            register bcrypt (Object obj) d = (error_response ''Registration failed'' 500, d)"
    using assms e p
    by (auto simp: register_def Let_def split: prod.splits)
  have w: "sanitize_input v = ''admin'' \<longleftrightarrow> (\<exists>s. v = JStr s \<and> strip s = ''admin'')" for v
    by (rule sanitize_eq_plain) (auto simp: html_special_def is_digit_def)
  have u: "sanitize_input (JStr ''user'') \<noteq> ''admin''"
    by (simp add: w strip_def is_space_def)
  have a: "role = ''admin'' \<longleftrightarrow> (\<exists>s. map_of obj ''role'' = Some (JStr s) \<and> strip s = ''admin'')"
    using assms(5) u by (auto simp: dict_get_def w split: option.splits)
  from ok raised a show ?thesis by blast
qed

theorem register_role_witness:
  "register demo_bcrypt (signup ''Passw0rd'' (JStr ''admin'')) db0 =
     (success_response ''User registered successfully'' (UserCreated 1 ''alice@example.com'') 201,
      db0\<lparr>users := [user_alice ''admin''], next_user_id := 2\<rparr>) \<and>
   register demo_bcrypt (signup ''Passw0rd'' (JStr ''superuser'')) db0 =
     (success_response ''User registered successfully'' (UserCreated 1 ''alice@example.com'') 201,
      db0\<lparr>users := [user_alice ''user''], next_user_id := 2\<rparr>) \<and>
   register demo_bcrypt (signup long_password (JStr ''admin'')) db0 =
     (error_response ''Registration failed'' 500, db0)"
  using register_role [of "[(''email'', JStr ''alice@example.com''), (''password'', JStr ''Passw0rd''),
                         (''name'', JStr ''Alice''), (''role'', JStr ''admin'')]"
          "''alice@example.com''" "''Alice''" "''Passw0rd''" "''admin''" db0 demo_bcrypt]
        register_role [of "[(''email'', JStr ''alice@example.com''), (''password'', JStr ''Passw0rd''),
                         (''name'', JStr ''Alice''), (''role'', JStr ''superuser'')]"
          "''alice@example.com''" "''Alice''" "''Passw0rd''" "''superuser''" db0 demo_bcrypt]
        register_role [of "[(''email'', JStr ''alice@example.com''), (''password'', JStr long_password),
                         (''name'', JStr ''Alice''), (''role'', JStr ''admin'')]"
          "''alice@example.com''" "''Alice''" long_password "''admin''" db0 demo_bcrypt]
  by (simp add: signup_def dict_get_def sanitize_signup email_example password_example
        long_password_valid hash_example hash_long UserModel_find_by_email_def db0_def
        user_alice_def)

end
